theory Spec2Isabelle
  imports Main
begin

section \<open>Values of the remote config store\<close>

text \<open>
  The file \<^verbatim>\<open>pages/ssr.tsx\<close> holds a data adapter, \<^verbatim>\<open>EdgeConfigDataAdapter\<close>, that
  serves the config specs of the experimentation SDK out of a remote key/value store, and
  the page handler \<^verbatim>\<open>getServerSideProps\<close> that uses it.

  An item of the store is a JSON value. A JavaScript string is modelled as the \<open>string\<close>
  of its UTF-8 bytes (so a lone surrogate, which is not text, has no counterpart). An
  object is the list of its members in enumeration order. The JavaScript value
  \<^verbatim>\<open>undefined\<close> is \<open>None\<close> of \<open>json option\<close>.

  A JavaScript number is a double. The numbers represented here are the safe integers,
  those of magnitude below \<open>2 ^ 53\<close>, each of which is a double that prints as its plain
  decimal numeral, and negative zero, which is a value of its own (\<open>JNegZero\<close>) although it
  prints as zero does. Fractions and larger magnitudes, whose text is the shortest digit
  string that reads back as the same double, are not represented.
\<close>

typedef safe_integer = "{n :: int. \<bar>n\<bar> < 2 ^ 53}"
  morphisms int_of_safe Abs_safe_integer
  by (rule exI [of _ 0]) simp

setup_lifting type_definition_safe_integer

instantiation safe_integer :: zero
begin

lift_definition zero_safe_integer :: safe_integer is 0
  by simp

instance ..

end


datatype json =
    JNull
  | JBool bool
  | JNum safe_integer
  | JNegZero
  | JStr string
  | JArr "json list"
  | JObj "(string \<times> json) list"

text \<open>The truthiness test that \<^verbatim>\<open>if (data)\<close> applies; a zero of either sign is falsy.\<close>

fun ToBoolean :: "json \<Rightarrow> bool" where
  "ToBoolean JNull = False"
| "ToBoolean (JBool b) = b"
| "ToBoolean (JNum n) = (n \<noteq> 0)"
| "ToBoolean JNegZero = False"
| "ToBoolean (JStr s) = (s \<noteq> [])"
| "ToBoolean (JArr _) = True"
| "ToBoolean (JObj _) = True"

definition truthy :: "json option \<Rightarrow> bool" where
  "truthy data = (case data of None \<Rightarrow> False | Some v \<Rightarrow> ToBoolean v)"

subsection \<open>\<^verbatim>\<open>JSON.stringify\<close> with one argument\<close>

text \<open>
  The serializer is the language's own, not code of this file; it is written out here
  after its definition in the language standard (\<^verbatim>\<open>SerializeJSONProperty\<close>,
  \<^verbatim>\<open>QuoteJSONString\<close>, \<^verbatim>\<open>Number::toString\<close>) for the values represented.
  \<open>Number_toString\<close> is the plain decimal numeral, the text of a safe integer; the
  handler's template literal prints a difference of two clock readings the same way.
\<close>

definition digit_char :: "nat \<Rightarrow> char" where
  "digit_char d = char_of (48 + d)"

fun digits :: "nat \<Rightarrow> string" where
  "digits n = (if n < 10 then [digit_char n] else digits (n div 10) @ [digit_char (n mod 10)])"

declare digits.simps [simp del]

definition Number_toString :: "int \<Rightarrow> string" where
  "Number_toString n = (if n < 0 then CHR ''-'' # digits (nat (- n)) else digits (nat n))"

definition hex_char :: "nat \<Rightarrow> char" where
  "hex_char d = (if d < 10 then char_of (48 + d) else char_of (87 + d))"

text \<open>
  The escapes of \<^verbatim>\<open>QuoteJSONString\<close>: the five short escapes, the quote (\<open>0x22\<close>) and the
  backslash (\<open>0x5C\<close>), \<^verbatim>\<open>\u00XX\<close> in lower-case hexadecimal for the other control
  characters, and every other character as it is.
\<close>

definition escape :: "char \<Rightarrow> string" where
  "escape c =
     (if c = CHR 0x08 then [CHR 0x5C, CHR ''b'']
      else if c = CHR 0x09 then [CHR 0x5C, CHR ''t'']
      else if c = CHR 0x0A then [CHR 0x5C, CHR ''n'']
      else if c = CHR 0x0C then [CHR 0x5C, CHR ''f'']
      else if c = CHR 0x0D then [CHR 0x5C, CHR ''r'']
      else if c = CHR 0x22 then [CHR 0x5C, CHR 0x22]
      else if c = CHR 0x5C then [CHR 0x5C, CHR 0x5C]
      else if (of_char c :: nat) < 0x20
        then [CHR 0x5C, CHR ''u'', CHR ''0'', CHR ''0'',
              hex_char (of_char c div 16), hex_char (of_char c mod 16)]
      else [c])"

definition QuoteJSONString :: "string \<Rightarrow> string" where
  "QuoteJSONString s = CHR 0x22 # concat (map escape s) @ [CHR 0x22]"

text \<open>No indentation is asked for, so members and elements are separated by a bare comma.\<close>

fun JSON_stringify :: "json \<Rightarrow> string"
  and stringify_elements :: "json list \<Rightarrow> string"
  and stringify_members :: "(string \<times> json) list \<Rightarrow> string" where
  "JSON_stringify JNull = ''null''"
| "JSON_stringify (JBool b) = (if b then ''true'' else ''false'')"
| "JSON_stringify (JNum n) = Number_toString (int_of_safe n)"
| "JSON_stringify JNegZero = ''0''"
| "JSON_stringify (JStr s) = QuoteJSONString s"
| "JSON_stringify (JArr vs) = CHR ''['' # stringify_elements vs @ '']''"
| "JSON_stringify (JObj ms) = CHR ''{'' # stringify_members ms @ ''}''"
| "stringify_elements [] = []"
| "stringify_elements [v] = JSON_stringify v"
| "stringify_elements (v # w # vs) = JSON_stringify v @ CHR '','' # stringify_elements (w # vs)"
| "stringify_members [] = []"
| "stringify_members [(k, v)] = QuoteJSONString k @ CHR '':'' # JSON_stringify v"
| "stringify_members ((k, v) # m # ms) =
     QuoteJSONString k @ CHR '':'' # JSON_stringify v @ CHR '','' # stringify_members (m # ms)"


section \<open>The adapter\<close>

text \<open>\<^verbatim>\<open>new Error(message)\<close>; a rejected promise or a throw is \<open>Inl\<close> of such an error.\<close>

datatype js_error = Error string

text \<open>
  \<^verbatim>\<open>AdapterResponse\<close>: the two fields this file writes, each optional. A field the object
  literal leaves out is \<open>None\<close>.
\<close>

record AdapterResponse =
  result :: "string option"
  error :: "js_error option"

text \<open>
  The client made by \<^verbatim>\<open>createClient(connectionString)\<close> is the handle of one store. What
  the stores hold is outside the program and may change between two calls, so every
  method that reads takes the state of the remote side at the time of the call: for a
  connection and an item key, the outcome of the client's \<^verbatim>\<open>get\<close>, which rejects
  (\<open>Inl\<close>), finds nothing (\<open>Inr None\<close>, the value \<^verbatim>\<open>undefined\<close>) or finds a value.
\<close>

record EdgeConfigClient =
  connection :: string

type_synonym remote = "string \<Rightarrow> string \<Rightarrow> js_error + json option"

definition EdgeConfigClient_get ::
    "remote \<Rightarrow> EdgeConfigClient \<Rightarrow> string \<Rightarrow> js_error + json option" where
  "EdgeConfigClient_get rem client key = rem (connection client) key"

record EdgeConfigDataAdapter =
  configSpecsKey :: string
  edgeConfigClient :: EdgeConfigClient
  supportConfigSpecPolling :: bool

text \<open>
  The variables of \<^verbatim>\<open>process.env\<close> that the file reads, each under a non-null assertion,
  hence a string.
\<close>

record process_env =
  EDGE_CONFIG :: string
  EDGE_CONFIG_ITEM_KEY :: string
  STATSIG_SERVER_API_KEY :: string

text \<open>
  The constructor. \<^verbatim>\<open>createClient\<close> belongs to the store's library and is a parameter; it
  may throw. The second argument defaults to \<^verbatim>\<open>process.env.EDGE_CONFIG\<close>. The flag starts
  as \<open>False\<close>, its field initialiser.
\<close>

definition new_EdgeConfigDataAdapter ::
    "(string \<Rightarrow> js_error + EdgeConfigClient) \<Rightarrow> process_env \<Rightarrow> string \<Rightarrow> string option
      \<Rightarrow> js_error + EdgeConfigDataAdapter" where
  "new_EdgeConfigDataAdapter create env key connectionString =
     (case create (case connectionString of None \<Rightarrow> EDGE_CONFIG env | Some s \<Rightarrow> s) of
        Inl e \<Rightarrow> Inl e
      | Inr client \<Rightarrow>
          Inr \<lparr>configSpecsKey = key, edgeConfigClient = client,
               supportConfigSpecPolling = False\<rparr>)"

text \<open>
  What a call of a method leaves behind: what it returned or the error it threw, the
  adapter after the call, the item keys it asked the remote client for, in order, and the
  lines it wrote with \<^verbatim>\<open>console.log\<close>.
\<close>

record 'a completion =
  returned :: "js_error + 'a"
  adapter :: EdgeConfigDataAdapter
  reads :: "string list"
  console :: "string list"

definition get :: "EdgeConfigDataAdapter \<Rightarrow> remote \<Rightarrow> string \<Rightarrow> AdapterResponse completion" where
  "get a rem key =
     (if key \<noteq> ''statsig.cache'' then
        \<lparr>returned = Inr \<lparr>result = None,
                          error = Some (Error ''Edge Config Adapter Only Supports Config Specs'')\<rparr>,
         adapter = a, reads = [], console = []\<rparr>
      else
        case EdgeConfigClient_get rem (edgeConfigClient a) (configSpecsKey a) of
          Inl e \<Rightarrow> \<lparr>returned = Inl e, adapter = a, reads = [configSpecsKey a], console = []\<rparr>
        | Inr data \<Rightarrow>
            (case data of
               None \<Rightarrow>
                 \<lparr>returned = Inr \<lparr>result = None,
                                   error = Some (Error (''key ('' @ key @ '') does not exist''))\<rparr>,
                  adapter = a, reads = [configSpecsKey a], console = []\<rparr>
             | Some v \<Rightarrow>
                 \<lparr>returned = Inr \<lparr>result = Some (JSON_stringify v), error = None\<rparr>,
                  adapter = a, reads = [configSpecsKey a], console = []\<rparr>))"

text \<open>\<^verbatim>\<open>set(key, value, time?)\<close>: an empty body.\<close>

definition set_item ::
    "EdgeConfigDataAdapter \<Rightarrow> string \<Rightarrow> string \<Rightarrow> int option \<Rightarrow> unit completion" where
  "set_item a key val time = \<lparr>returned = Inr (), adapter = a, reads = [], console = []\<rparr>"

definition initialize :: "EdgeConfigDataAdapter \<Rightarrow> remote \<Rightarrow> unit completion" where
  "initialize a rem =
     (case EdgeConfigClient_get rem (edgeConfigClient a) (configSpecsKey a) of
        Inl e \<Rightarrow> \<lparr>returned = Inl e, adapter = a, reads = [configSpecsKey a], console = []\<rparr>
      | Inr data \<Rightarrow>
          \<lparr>returned = Inr (),
           adapter = (if truthy data then a\<lparr>supportConfigSpecPolling := True\<rparr> else a),
           reads = [configSpecsKey a], console = []\<rparr>)"

definition shutdown :: "EdgeConfigDataAdapter \<Rightarrow> unit completion" where
  "shutdown a = \<lparr>returned = Inr (), adapter = a, reads = [], console = []\<rparr>"

definition supportsPollingUpdatesFor :: "EdgeConfigDataAdapter \<Rightarrow> string \<Rightarrow> bool completion" where
  "supportsPollingUpdatesFor a key =
     \<lparr>returned = Inr (if key = ''statsig.cache'' then supportConfigSpecPolling a else True),
      adapter = a, reads = [], console = [key]\<rparr>"

subsection \<open>Sequences of calls\<close>

text \<open>
  A caller such as the SDK calls the methods of one adapter one after the other; each call
  meets the remote side as it is then.
\<close>

datatype call =
    CallGet string
  | CallSet string string "int option"
  | CallInitialize
  | CallShutdown
  | CallSupportsPollingUpdatesFor string

fun invoke :: "EdgeConfigDataAdapter \<Rightarrow> remote \<Rightarrow> call \<Rightarrow> EdgeConfigDataAdapter" where
  "invoke a rem (CallGet key) = adapter (get a rem key)"
| "invoke a rem (CallSet key val time) = adapter (set_item a key val time)"
| "invoke a rem CallInitialize = adapter (initialize a rem)"
| "invoke a rem CallShutdown = adapter (shutdown a)"
| "invoke a rem (CallSupportsPollingUpdatesFor key) = adapter (supportsPollingUpdatesFor a key)"

fun run :: "EdgeConfigDataAdapter \<Rightarrow> (remote \<times> call) list \<Rightarrow> EdgeConfigDataAdapter" where
  "run a [] = a"
| "run a ((rem, c) # cs) = run (invoke a rem c) cs"

section \<open>The page request handler\<close>

text \<open>
  The SDK (\<^verbatim>\<open>StatsigNode\<close>), the clock and the store's \<^verbatim>\<open>createClient\<close> are not part of
  this file: they are parameters, over a state \<open>'s\<close> of the outside world that each call
  may change. Any of the calls may throw: \<open>Inl\<close> is the rejection of an awaited promise
  or, for \<^verbatim>\<open>flush\<close>, which is not awaited, a throw in the call itself. The object that
  \<^verbatim>\<open>getConfig\<close> resolves to is given by its one method used here. The handler has no
  \<^verbatim>\<open>try\<close>, so the first error ends the request.
\<close>

record StatsigUser =
  userID :: string

record DynamicConfig =
  getValue :: "string \<Rightarrow> json \<Rightarrow> js_error + json"

record 's externals =
  Date_valueOf :: "'s \<Rightarrow> int \<times> 's"
  createClient :: "string \<Rightarrow> js_error + EdgeConfigClient"
  StatsigNode_initialize :: "string \<Rightarrow> EdgeConfigDataAdapter \<Rightarrow> 's \<Rightarrow> (js_error + unit) \<times> 's"
  StatsigNode_getConfig :: "StatsigUser \<Rightarrow> string \<Rightarrow> 's \<Rightarrow> (js_error + DynamicConfig) \<times> 's"
  StatsigNode_flush :: "'s \<Rightarrow> (js_error + unit) \<times> 's"

text \<open>What the handler does to the outside, in order, with the arguments it passes.\<close>

datatype log_line = LogValue json | LogText string

datatype event =
    NewDate
  | CreateClient string
  | StatsigInitialize string EdgeConfigDataAdapter
  | StatsigGetConfig StatsigUser string
  | GetValue string json
  | ConsoleLog log_line
  | StatsigFlush

text \<open>The object handed to the page renderer: \<^verbatim>\<open>props\<close> is the list of its members.\<close>

record ServerSideProps =
  props :: "(string \<times> json) list"

record 's handled =
  response :: "js_error + ServerSideProps"
  trace :: "event list"
  world :: 's

definition getServerSideProps ::
    "'ctx \<Rightarrow> process_env \<Rightarrow> 's externals \<Rightarrow> 's \<Rightarrow> 's handled" where
  "getServerSideProps context env ext s0 =
     (case Date_valueOf ext s0 of (startT, s1) \<Rightarrow>
      let t1 = [NewDate, CreateClient (EDGE_CONFIG env)] in
      case new_EdgeConfigDataAdapter (createClient ext) env (EDGE_CONFIG_ITEM_KEY env) None of
        Inl e \<Rightarrow> \<lparr>response = Inl e, trace = t1, world = s1\<rparr>
      | Inr dataAdapter \<Rightarrow>
     (let t2 = t1 @ [StatsigInitialize (STATSIG_SERVER_API_KEY env) dataAdapter] in
      case StatsigNode_initialize ext (STATSIG_SERVER_API_KEY env) dataAdapter s1 of
        (Inl e, s2) \<Rightarrow> \<lparr>response = Inl e, trace = t2, world = s2\<rparr>
      | (Inr _, s2) \<Rightarrow>
     (let t3 = t2 @ [StatsigGetConfig \<lparr>userID = ''1234''\<rparr> ''statsig_example''] in
      case StatsigNode_getConfig ext \<lparr>userID = ''1234''\<rparr> ''statsig_example'' s2 of
        (Inl e, s3) \<Rightarrow> \<lparr>response = Inl e, trace = t3, world = s3\<rparr>
      | (Inr config, s3) \<Rightarrow>
     (let t4 = t3 @ [GetValue ''bucket'' (JStr ''default'')] in
      case getValue config ''bucket'' (JStr ''default'') of
        Inl e \<Rightarrow> \<lparr>response = Inl e, trace = t4, world = s3\<rparr>
      | Inr bucket \<Rightarrow>
     (case Date_valueOf ext s3 of (endT1, s4) \<Rightarrow>
      let t5 = t4 @ [ConsoleLog (LogValue bucket), NewDate,
                     ConsoleLog (LogText (''init time: '' @ Number_toString (endT1 - startT))),
                     StatsigFlush] in
      case StatsigNode_flush ext s4 of
        (Inl e, s5) \<Rightarrow> \<lparr>response = Inl e, trace = t5, world = s5\<rparr>
      | (Inr _, s5) \<Rightarrow> \<lparr>response = Inr \<lparr>props = []\<rparr>, trace = t5, world = s5\<rparr>)))))"

section \<open>Auxiliary notions for the proofs\<close>

text \<open>
  Reading a numeral back, and the class of a value as its first character shows it: these
  serve only to prove that the serialization loses nothing.
\<close>

definition is_digit :: "char \<Rightarrow> bool" where
  "is_digit c = (48 \<le> (of_char c :: nat) \<and> (of_char c :: nat) \<le> 57)"





definition char_class :: "char \<Rightarrow> nat" where
  "char_class c =
     (if c = CHR ''n'' then 0
      else if c = CHR ''t'' \<or> c = CHR ''f'' then 1
      else if c = CHR ''-'' \<or> is_digit c then 2
      else if c = CHR 0x22 then 3
      else if c = CHR ''['' then 4
      else if c = CHR ''{'' then 5
      else 6)"

section \<open>Sample inputs\<close>

definition sample_client :: EdgeConfigClient where
  "sample_client = \<lparr>connection = ''ecfg''\<rparr>"

definition sample_adapter :: EdgeConfigDataAdapter where
  "sample_adapter = \<lparr>configSpecsKey = ''statsig-specs'', edgeConfigClient = sample_client,
                      supportConfigSpecPolling = False\<rparr>"

definition remote_without :: remote where
  "remote_without conn key = Inr None"

definition remote_holding :: "json \<Rightarrow> remote" where
  "remote_holding v conn key =
     (if conn = ''ecfg'' \<and> key = ''statsig-specs'' then Inr (Some v) else Inr None)"

definition sample_specs :: json where
  "sample_specs = JObj [(''time'', JNum (Abs_safe_integer 1700)), (''feature_gates'', JArr [])]"


definition sample_env :: process_env where
  "sample_env = \<lparr>EDGE_CONFIG = ''ecfg'', EDGE_CONFIG_ITEM_KEY = ''statsig-specs'',
                  STATSIG_SERVER_API_KEY = ''secret-key''\<rparr>"

definition sample_config :: DynamicConfig where
  "sample_config = \<lparr>getValue = (\<lambda>field fallback.
      Inr (if field = ''bucket'' then JStr ''a'' else fallback))\<rparr>"

text \<open>An outside world where every call succeeds; its state is the clock.\<close>

definition sdk_succeeding :: "int externals" where
  "sdk_succeeding =
     \<lparr>Date_valueOf = (\<lambda>t. (t, t + 5)),
      createClient = (\<lambda>c. Inr \<lparr>connection = c\<rparr>),
      StatsigNode_initialize = (\<lambda>secret a t. (Inr (), t)),
      StatsigNode_getConfig = (\<lambda>user name t. (Inr sample_config, t)),
      StatsigNode_flush = (\<lambda>t. (Inr (), t))\<rparr>"

text \<open>The same world, but with an SDK that rejects the server key.\<close>

definition sdk_rejecting :: "int externals" where
  "sdk_rejecting =
     sdk_succeeding\<lparr>StatsigNode_initialize :=
       (\<lambda>secret a t. (Inl (Error ''Invalid key provided''), t))\<rparr>"

text \<open>
  An SDK whose answer tells which user and experiment it was asked for: the bucket is the
  user identifier, and only for the experiment \<^verbatim>\<open>statsig_example\<close>.
\<close>

definition config_for :: "StatsigUser \<Rightarrow> string \<Rightarrow> DynamicConfig" where
  "config_for user name = \<lparr>getValue = (\<lambda>field fallback.
      Inr (if field = ''bucket'' \<and> name = ''statsig_example'' then JStr (userID user)
           else fallback))\<rparr>"

definition sdk_by_user :: "int externals" where
  "sdk_by_user =
     sdk_succeeding\<lparr>StatsigNode_getConfig := (\<lambda>user name t. (Inr (config_for user name), t))\<rparr>"

text \<open>Two more evaluations: one knows only the user \<^verbatim>\<open>1234\<close>, the other rejects only that user.\<close>

definition getConfig_only_1234 ::
    "StatsigUser \<Rightarrow> string \<Rightarrow> int \<Rightarrow> (js_error + DynamicConfig) \<times> int" where
  "getConfig_only_1234 user name t =
     (if user = \<lparr>userID = ''1234''\<rparr> \<and> name = ''statsig_example''
      then (Inr (config_for user name), t) else (Inl (Error ''unknown user''), t))"

definition getConfig_except_1234 ::
    "StatsigUser \<Rightarrow> string \<Rightarrow> int \<Rightarrow> (js_error + DynamicConfig) \<times> int" where
  "getConfig_except_1234 user name t =
     (if user = \<lparr>userID = ''1234''\<rparr> \<and> name = ''statsig_example''
      then (Inl (Error ''user 1234 is blocked''), t) else (Inr (config_for user name), t))"

text \<open>An adapter whose lookup name happens to be the recognized key itself.\<close>

definition cache_adapter :: EdgeConfigDataAdapter where
  "cache_adapter = \<lparr>configSpecsKey = ''statsig.cache'', edgeConfigClient = sample_client,
                     supportConfigSpecPolling = False\<rparr>"

text \<open>Calls of every method but \<^verbatim>\<open>initialize\<close>, against a remote side that changes.\<close>

definition sample_calls :: "(remote \<times> call) list" where
  "sample_calls =
     [(remote_without, CallGet ''statsig.cache''),
      (remote_without, CallSupportsPollingUpdatesFor ''statsig.cache''),
      (remote_holding sample_specs, CallSet ''statsig.cache'' ''{}'' (Some 1)),
      (remote_without, CallGet ''gates''),
      (remote_without, CallShutdown)]"

text \<open>Two request contexts, given by their cookies.\<close>

definition sample_context :: "(string \<times> string) list" where
  "sample_context = [(''uid'', ''7f3a'')]"

definition other_context :: "(string \<times> string) list" where
  "other_context = [(''uid'', ''05c1'')]"

section \<open>The serialization loses nothing\<close>


























lemma class_closing [simp]: "char_class CHR '']'' = 6" "char_class CHR ''}'' = 6"
  by (simp_all add: char_class_def is_digit_def)








section \<open>What \<^verbatim>\<open>get\<close> answers\<close>

text \<open>
  C1. For every key other than the one recognized key \<^verbatim>\<open>statsig.cache\<close>, \<^verbatim>\<open>get\<close> returns
  a response whose error is the "only supports config specs" error, with no result, and
  the call asks the remote client for nothing.
\<close>

theorem get_rejects_other_keys:
  "key \<noteq> ''statsig.cache'' \<Longrightarrow>
     returned (get a rem key) =
       Inr \<lparr>result = None,
            error = Some (Error ''Edge Config Adapter Only Supports Config Specs'')\<rparr>
     \<and> reads (get a rem key) = []"
  by (simp add: get_def)

text \<open>The key \<^verbatim>\<open>statsig.specs\<close> is refused although the store holds the specs.\<close>

theorem get_rejects_other_keys_witness:
  "''statsig.specs'' \<noteq> ''statsig.cache''
   \<and> returned (get sample_adapter (remote_holding sample_specs) ''statsig.specs'') =
       Inr \<lparr>result = None,
            error = Some (Error ''Edge Config Adapter Only Supports Config Specs'')\<rparr>
   \<and> reads (get sample_adapter (remote_holding sample_specs) ''statsig.specs'') = []"
  using get_rejects_other_keys [of "''statsig.specs''" sample_adapter "remote_holding sample_specs"]
  by simp

text \<open>
  C2. For the recognized key, when the remote client has no value under the configured
  lookup name (its read gives \<^verbatim>\<open>undefined\<close>), \<^verbatim>\<open>get\<close> returns a response whose error is
  "key (statsig.cache) does not exist", and no result.
\<close>

theorem get_not_found:
  "EdgeConfigClient_get rem (edgeConfigClient a) (configSpecsKey a) = Inr None \<Longrightarrow>
     returned (get a rem ''statsig.cache'') =
       Inr \<lparr>result = None, error = Some (Error ''key (statsig.cache) does not exist'')\<rparr>"
  by (simp add: get_def)

theorem get_not_found_witness:
  "EdgeConfigClient_get remote_without (edgeConfigClient sample_adapter)
       (configSpecsKey sample_adapter) = Inr None
   \<and> returned (get sample_adapter remote_without ''statsig.cache'') =
       Inr \<lparr>result = None, error = Some (Error ''key (statsig.cache) does not exist'')\<rparr>"
proof -
  have absent: "EdgeConfigClient_get remote_without (edgeConfigClient sample_adapter)
      (configSpecsKey sample_adapter) = Inr None"
    by (simp add: EdgeConfigClient_get_def remote_without_def)
  from absent get_not_found [OF absent] show ?thesis by simp
qed






section \<open>The polling flag\<close>

text \<open>
  C4, as the spec has it: after a successful \<^verbatim>\<open>initialize\<close> whose read returned a present
  value, \<^verbatim>\<open>supportsPollingUpdatesFor\<close> returns true for the recognized key. It does not
  when the value is present and falsy: with the number 0 stored under the lookup name,
  \<^verbatim>\<open>initialize\<close> succeeds and \<^verbatim>\<open>supportsPollingUpdatesFor\<close> still answers false.
\<close>

theorem initialize_present_falsy_counterexample:
  "EdgeConfigClient_get (remote_holding (JNum 0)) (edgeConfigClient sample_adapter)
       (configSpecsKey sample_adapter) = Inr (Some (JNum 0))
   \<and> returned (initialize sample_adapter (remote_holding (JNum 0))) = Inr ()
   \<and> returned (supportsPollingUpdatesFor
         (adapter (initialize sample_adapter (remote_holding (JNum 0)))) ''statsig.cache'')
       = Inr False"
  by (simp add: EdgeConfigClient_get_def remote_holding_def sample_adapter_def sample_client_def
      initialize_def supportsPollingUpdatesFor_def truthy_def)

text \<open>
  C4, amended. When the read of \<^verbatim>\<open>initialize\<close> succeeds, \<^verbatim>\<open>initialize\<close> succeeds, and
  afterwards \<^verbatim>\<open>supportsPollingUpdatesFor\<close> returns true for the recognized key if the value
  read was truthy (present and none of false, 0 or -0, the empty string, null); it returns false
  for that key if nothing was found and the flag was still false, as it is on a newly
  constructed adapter; and for every other key it returns true, whatever the adapter.
\<close>

theorem supportsPollingUpdatesFor_after_initialize:
  "EdgeConfigClient_get rem (edgeConfigClient a) (configSpecsKey a) = Inr data \<Longrightarrow>
     returned (initialize a rem) = Inr ()
     \<and> (truthy data \<longrightarrow>
          returned (supportsPollingUpdatesFor (adapter (initialize a rem)) ''statsig.cache'')
            = Inr True)
     \<and> (data = None \<and> \<not> supportConfigSpecPolling a \<longrightarrow>
          returned (supportsPollingUpdatesFor (adapter (initialize a rem)) ''statsig.cache'')
            = Inr False)
     \<and> (\<forall>b key. key \<noteq> ''statsig.cache'' \<longrightarrow>
          returned (supportsPollingUpdatesFor b key) = Inr True)"
  by (simp add: initialize_def supportsPollingUpdatesFor_def truthy_def)

theorem supportsPollingUpdatesFor_after_initialize_witness:
  "EdgeConfigClient_get (remote_holding sample_specs) (edgeConfigClient sample_adapter)
       (configSpecsKey sample_adapter) = Inr (Some sample_specs)
   \<and> truthy (Some sample_specs)
   \<and> returned (supportsPollingUpdatesFor
         (adapter (initialize sample_adapter (remote_holding sample_specs))) ''statsig.cache'')
       = Inr True
   \<and> EdgeConfigClient_get remote_without (edgeConfigClient sample_adapter)
       (configSpecsKey sample_adapter) = Inr None
   \<and> \<not> supportConfigSpecPolling sample_adapter
   \<and> returned (supportsPollingUpdatesFor
         (adapter (initialize sample_adapter remote_without)) ''statsig.cache'')
       = Inr False
   \<and> ''gates'' \<noteq> ''statsig.cache''
   \<and> returned (supportsPollingUpdatesFor sample_adapter ''gates'') = Inr True"
proof -
  have present: "EdgeConfigClient_get (remote_holding sample_specs)
      (edgeConfigClient sample_adapter) (configSpecsKey sample_adapter) = Inr (Some sample_specs)"
    by (simp add: EdgeConfigClient_get_def remote_holding_def sample_adapter_def sample_client_def)
  have absent: "EdgeConfigClient_get remote_without (edgeConfigClient sample_adapter)
      (configSpecsKey sample_adapter) = Inr None"
    by (simp add: EdgeConfigClient_get_def remote_without_def)
  have t: "truthy (Some sample_specs)" by (simp add: truthy_def sample_specs_def)
  have f: "\<not> supportConfigSpecPolling sample_adapter" by (simp add: sample_adapter_def)
  from present absent t f
    supportsPollingUpdatesFor_after_initialize [OF present]
    supportsPollingUpdatesFor_after_initialize [OF absent]
  show ?thesis by simp
qed

text \<open>
  C10. \<^verbatim>\<open>initialize\<close> sets the flag only on a truthy read: on an adapter whose flag is
  false, the flag afterwards is the truthiness of what was read. So for every present but
  falsy value, such as false, 0, the empty string or null, the flag stays false and
  \<^verbatim>\<open>supportsPollingUpdatesFor\<close> returns false for the recognized key although the store
  holds the item.
\<close>

theorem initialize_needs_truthy_value:
  assumes "EdgeConfigClient_get rem (edgeConfigClient a) (configSpecsKey a) = Inr data"
    and "\<not> supportConfigSpecPolling a"
  shows "supportConfigSpecPolling (adapter (initialize a rem)) = truthy data
     \<and> (\<forall>v. data = Some v \<and> \<not> ToBoolean v \<longrightarrow>
          \<not> supportConfigSpecPolling (adapter (initialize a rem))
          \<and> returned (supportsPollingUpdatesFor (adapter (initialize a rem)) ''statsig.cache'')
              = Inr False)
     \<and> \<not> ToBoolean (JBool False) \<and> \<not> ToBoolean (JNum 0) \<and> \<not> ToBoolean (JStr [])
     \<and> \<not> ToBoolean JNull"
  using assms by (simp add: initialize_def supportsPollingUpdatesFor_def truthy_def)

theorem initialize_needs_truthy_value_witness:
  "EdgeConfigClient_get (remote_holding (JBool False)) (edgeConfigClient sample_adapter)
       (configSpecsKey sample_adapter) = Inr (Some (JBool False))
   \<and> \<not> supportConfigSpecPolling sample_adapter
   \<and> \<not> ToBoolean (JBool False)
   \<and> \<not> supportConfigSpecPolling (adapter (initialize sample_adapter (remote_holding (JBool False))))
   \<and> returned (supportsPollingUpdatesFor
         (adapter (initialize sample_adapter (remote_holding (JBool False)))) ''statsig.cache'')
       = Inr False"
proof -
  have present: "EdgeConfigClient_get (remote_holding (JBool False))
      (edgeConfigClient sample_adapter) (configSpecsKey sample_adapter) = Inr (Some (JBool False))"
    by (simp add: EdgeConfigClient_get_def remote_holding_def sample_adapter_def sample_client_def)
  have f: "\<not> supportConfigSpecPolling sample_adapter" by (simp add: sample_adapter_def)
  from present f initialize_needs_truthy_value [OF present f] show ?thesis
    by (simp add: truthy_def)
qed

section \<open>Methods that change nothing\<close>

text \<open>
  C5. For every adapter and all arguments, \<^verbatim>\<open>set\<close> and \<^verbatim>\<open>shutdown\<close> return without
  throwing and leave the adapter as it was, so any later \<^verbatim>\<open>get\<close>, against the same remote
  contents, gives what it would have given without them.
\<close>

theorem set_and_shutdown_change_nothing:
  "returned (set_item a key val time) = Inr ()
   \<and> adapter (set_item a key val time) = a
   \<and> returned (shutdown a) = Inr ()
   \<and> adapter (shutdown a) = a
   \<and> get (adapter (set_item a key val time)) rem k = get a rem k
   \<and> get (adapter (shutdown a)) rem k = get a rem k"
  by (simp add: set_item_def shutdown_def)

theorem set_and_shutdown_change_nothing_witness:
  "returned (set_item sample_adapter ''statsig.cache'' ''{}'' (Some 1)) = Inr ()
   \<and> returned (shutdown sample_adapter) = Inr ()
   \<and> get (adapter (set_item sample_adapter ''statsig.cache'' ''{}'' (Some 1)))
         (remote_holding sample_specs) ''statsig.cache''
       = get sample_adapter (remote_holding sample_specs) ''statsig.cache''
   \<and> get (adapter (shutdown sample_adapter)) (remote_holding sample_specs) ''statsig.cache''
       = get sample_adapter (remote_holding sample_specs) ''statsig.cache''"
  using set_and_shutdown_change_nothing
    [of sample_adapter "''statsig.cache''" "''{}''" "Some 1" "remote_holding sample_specs"
      "''statsig.cache''"]
  by blast

lemma invoke_keeps_adapter: "c \<noteq> CallInitialize \<Longrightarrow> invoke a rem c = a"
  by (cases c) (simp_all add: get_def set_item_def shutdown_def supportsPollingUpdatesFor_def
      split: sum.splits option.splits)

lemma run_keeps_adapter: "\<forall>(rem, c) \<in> set cs. c \<noteq> CallInitialize \<Longrightarrow> run a cs = a"
proof (induction cs arbitrary: a)
  case Nil
  then show ?case by simp
next
  case (Cons rc cs)
  obtain rem c where rc: "rc = (rem, c)" by (cases rc)
  with Cons.prems have "c \<noteq> CallInitialize" by simp
  then have "invoke a rem c = a" by (rule invoke_keeps_adapter)
  moreover from Cons.prems have "\<forall>(rem, c) \<in> set cs. c \<noteq> CallInitialize" by simp
  ultimately show ?case using Cons.IH rc by simp
qed

lemma run_append: "run a (cs @ ds) = run (run a cs) ds"
  by (induction cs arbitrary: a) auto

text \<open>
  C8. Only \<^verbatim>\<open>initialize\<close> changes the flag: over any sequence of calls of \<^verbatim>\<open>get\<close>,
  \<^verbatim>\<open>set\<close>, \<^verbatim>\<open>shutdown\<close> and \<^verbatim>\<open>supportsPollingUpdatesFor\<close> the flag keeps the value it
  had before them, be that the value from construction or the one the last \<^verbatim>\<open>initialize\<close>
  left.
\<close>

theorem only_initialize_changes_flag:
  assumes "\<forall>(rem, c) \<in> set cs. c \<noteq> CallInitialize"
  shows "supportConfigSpecPolling (run a cs) = supportConfigSpecPolling a
     \<and> supportConfigSpecPolling (run a (before @ (rem, CallInitialize) # cs))
         = supportConfigSpecPolling (adapter (initialize (run a before) rem))"
proof -
  have "run a (before @ (rem, CallInitialize) # cs)
      = run (adapter (initialize (run a before) rem)) cs"
    by (simp add: run_append)
  with assms show ?thesis by (simp add: run_keeps_adapter)
qed

theorem only_initialize_changes_flag_witness:
  "supportConfigSpecPolling (run sample_adapter sample_calls) = False
   \<and> supportConfigSpecPolling
        (run sample_adapter ([] @ (remote_holding sample_specs, CallInitialize) # sample_calls))
       = True"
proof -
  have h: "\<forall>(rem, c) \<in> set sample_calls. c \<noteq> CallInitialize"
    by (simp add: sample_calls_def)
  have i: "supportConfigSpecPolling
      (adapter (initialize (run sample_adapter []) (remote_holding sample_specs))) = True"
    by (simp add: initialize_def EdgeConfigClient_get_def remote_holding_def sample_adapter_def
        sample_client_def truthy_def sample_specs_def)
  have f: "supportConfigSpecPolling sample_adapter = False" by (simp add: sample_adapter_def)
  from i f
    only_initialize_changes_flag [OF h, of sample_adapter "[]" "remote_holding sample_specs"]
  show ?thesis by simp
qed

section \<open>The two keys\<close>

text \<open>
  C9, as stated: the key \<^verbatim>\<open>get\<close> accepts and the key looked up in the store are distinct
  values, and a read never uses the requested key. Nothing keeps the constructor from
  being given \<^verbatim>\<open>statsig.cache\<close> as the lookup name; then the key read is the requested
  key.
\<close>

theorem lookup_key_equals_accepted_key_counterexample:
  "new_EdgeConfigDataAdapter (createClient sdk_succeeding) sample_env ''statsig.cache'' None
     = Inr cache_adapter
   \<and> configSpecsKey cache_adapter = ''statsig.cache''
   \<and> reads (get cache_adapter remote_without ''statsig.cache'') = [''statsig.cache'']
   \<and> reads (initialize cache_adapter remote_without) = [''statsig.cache'']"
  by (simp add: new_EdgeConfigDataAdapter_def sdk_succeeding_def sample_env_def cache_adapter_def
      sample_client_def get_def initialize_def EdgeConfigClient_get_def remote_without_def)

text \<open>
  C9, amended. The lookup name is whatever the constructor was given, and need not differ
  from the accepted key. Every remote read of \<^verbatim>\<open>get\<close> and of \<^verbatim>\<open>initialize\<close> uses that
  constructor-supplied name, whatever key was requested. The "not found" message names the
  requested key \<^verbatim>\<open>statsig.cache\<close>, which is not the name that was looked up and found
  absent whenever the two differ.
\<close>

theorem reads_use_configured_key:
  "(new_EdgeConfigDataAdapter create env k conn = Inr a \<longrightarrow> configSpecsKey a = k)
   \<and> reads (get a rem key) = (if key = ''statsig.cache'' then [configSpecsKey a] else [])
   \<and> reads (initialize a rem) = [configSpecsKey a]
   \<and> (EdgeConfigClient_get rem (edgeConfigClient a) (configSpecsKey a) = Inr None \<longrightarrow>
        returned (get a rem ''statsig.cache'') =
          Inr \<lparr>result = None, error = Some (Error ''key (statsig.cache) does not exist'')\<rparr>)
   \<and> (configSpecsKey a \<noteq> ''statsig.cache'' \<longrightarrow>
        ''key (statsig.cache) does not exist''
          \<noteq> ''key ('' @ configSpecsKey a @ '') does not exist'')"
proof -
  have "configSpecsKey a = ''statsig.cache''"
    if "''key (statsig.cache) does not exist'' = ''key ('' @ configSpecsKey a @ '') does not exist''"
  proof -
    from that have "''statsig.cache'' @ '') does not exist''
        = configSpecsKey a @ '') does not exist''" by simp
    then show ?thesis by (simp only: append_same_eq)
  qed
  then show ?thesis
    by (auto simp: new_EdgeConfigDataAdapter_def get_def initialize_def
        split: sum.splits option.splits)
qed

theorem reads_use_configured_key_witness:
  "new_EdgeConfigDataAdapter (createClient sdk_succeeding) sample_env ''statsig-specs'' None
     = Inr sample_adapter
   \<and> configSpecsKey sample_adapter = ''statsig-specs''
   \<and> reads (get sample_adapter remote_without ''statsig.cache'') = [''statsig-specs'']
   \<and> reads (initialize sample_adapter remote_without) = [''statsig-specs'']
   \<and> EdgeConfigClient_get remote_without (edgeConfigClient sample_adapter)
        (configSpecsKey sample_adapter) = Inr None
   \<and> returned (get sample_adapter remote_without ''statsig.cache'') =
        Inr \<lparr>result = None, error = Some (Error ''key (statsig.cache) does not exist'')\<rparr>
   \<and> configSpecsKey sample_adapter \<noteq> ''statsig.cache''"
proof -
  have made: "new_EdgeConfigDataAdapter (createClient sdk_succeeding) sample_env
      ''statsig-specs'' None = Inr sample_adapter"
    by (simp add: new_EdgeConfigDataAdapter_def sdk_succeeding_def sample_env_def
        sample_adapter_def sample_client_def)
  have absent: "EdgeConfigClient_get remote_without (edgeConfigClient sample_adapter)
      (configSpecsKey sample_adapter) = Inr None"
    by (simp add: EdgeConfigClient_get_def remote_without_def)
  have k: "configSpecsKey sample_adapter = ''statsig-specs''" by (simp add: sample_adapter_def)
  from made absent k
    reads_use_configured_key [of "createClient sdk_succeeding" sample_env "''statsig-specs''" None
      sample_adapter remote_without "''statsig.cache''"]
  show ?thesis by simp
qed

section \<open>The page request handler, end to end\<close>

text \<open>
  C6, as stated: on every request the handler runs through to the end and returns an
  empty props object. Nothing in the handler catches an error, so when the SDK rejects the
  server key in \<^verbatim>\<open>initialize\<close> the request fails with that error and returns no props.
\<close>

theorem getServerSideProps_rejected_counterexample:
  "response (getServerSideProps sample_context sample_env sdk_rejecting 0)
     = Inl (Error ''Invalid key provided'')"
  by (simp add: getServerSideProps_def sdk_rejecting_def sdk_succeeding_def sample_env_def
      new_EdgeConfigDataAdapter_def)

text \<open>
  C6, amended. On every request in which none of the outside calls throws, the handler
  constructs a fresh adapter for the configured item key, initializes the SDK with the
  server key and that adapter, evaluates \<^verbatim>\<open>statsig_example\<close>, extracts the field
  \<^verbatim>\<open>bucket\<close> with the fallback \<^verbatim>\<open>default\<close>, flushes, and returns an empty props
  object. Whenever the handler returns at all, the props are empty: the bucket is only
  logged.
\<close>

theorem getServerSideProps_sequence:
  "(Date_valueOf ext s0 = (startT, s1)
    \<and> createClient ext (EDGE_CONFIG env) = Inr client
    \<and> dataAdapter = \<lparr>configSpecsKey = EDGE_CONFIG_ITEM_KEY env, edgeConfigClient = client,
                       supportConfigSpecPolling = False\<rparr>
    \<and> StatsigNode_initialize ext (STATSIG_SERVER_API_KEY env) dataAdapter s1 = (Inr (), s2)
    \<and> StatsigNode_getConfig ext \<lparr>userID = ''1234''\<rparr> ''statsig_example'' s2 = (Inr config, s3)
    \<and> getValue config ''bucket'' (JStr ''default'') = Inr bucket
    \<and> Date_valueOf ext s3 = (endT1, s4)
    \<and> StatsigNode_flush ext s4 = (Inr (), s5)
    \<longrightarrow> getServerSideProps context env ext s0 =
         \<lparr>response = Inr \<lparr>props = []\<rparr>,
          trace = [NewDate, CreateClient (EDGE_CONFIG env),
                   StatsigInitialize (STATSIG_SERVER_API_KEY env) dataAdapter,
                   StatsigGetConfig \<lparr>userID = ''1234''\<rparr> ''statsig_example'',
                   GetValue ''bucket'' (JStr ''default''),
                   ConsoleLog (LogValue bucket), NewDate,
                   ConsoleLog (LogText (''init time: '' @ Number_toString (endT1 - startT))),
                   StatsigFlush],
          world = s5\<rparr>)
   \<and> (\<forall>p. response (getServerSideProps context env ext s0) = Inr p \<longrightarrow> p = \<lparr>props = []\<rparr>)"
proof (intro conjI impI allI)
  assume "Date_valueOf ext s0 = (startT, s1)
    \<and> createClient ext (EDGE_CONFIG env) = Inr client
    \<and> dataAdapter = \<lparr>configSpecsKey = EDGE_CONFIG_ITEM_KEY env, edgeConfigClient = client,
                       supportConfigSpecPolling = False\<rparr>
    \<and> StatsigNode_initialize ext (STATSIG_SERVER_API_KEY env) dataAdapter s1 = (Inr (), s2)
    \<and> StatsigNode_getConfig ext \<lparr>userID = ''1234''\<rparr> ''statsig_example'' s2 = (Inr config, s3)
    \<and> getValue config ''bucket'' (JStr ''default'') = Inr bucket
    \<and> Date_valueOf ext s3 = (endT1, s4)
    \<and> StatsigNode_flush ext s4 = (Inr (), s5)"
  then show "getServerSideProps context env ext s0 =
         \<lparr>response = Inr \<lparr>props = []\<rparr>,
          trace = [NewDate, CreateClient (EDGE_CONFIG env),
                   StatsigInitialize (STATSIG_SERVER_API_KEY env) dataAdapter,
                   StatsigGetConfig \<lparr>userID = ''1234''\<rparr> ''statsig_example'',
                   GetValue ''bucket'' (JStr ''default''),
                   ConsoleLog (LogValue bucket), NewDate,
                   ConsoleLog (LogText (''init time: '' @ Number_toString (endT1 - startT))),
                   StatsigFlush],
          world = s5\<rparr>"
    by (elim conjE) (simp add: getServerSideProps_def new_EdgeConfigDataAdapter_def)
next
  fix p
  assume "response (getServerSideProps context env ext s0) = Inr p"
  then show "p = \<lparr>props = []\<rparr>"
    unfolding getServerSideProps_def Let_def
    by (simp split: prod.splits sum.splits)
qed

lemma init_time_text: "Number_toString 5 = ''5''"
  by code_simp

theorem getServerSideProps_sequence_witness:
  "getServerSideProps sample_context sample_env sdk_succeeding 0 =
     \<lparr>response = Inr \<lparr>props = []\<rparr>,
      trace = [NewDate, CreateClient ''ecfg'',
               StatsigInitialize ''secret-key'' sample_adapter,
               StatsigGetConfig \<lparr>userID = ''1234''\<rparr> ''statsig_example'',
               GetValue ''bucket'' (JStr ''default''),
               ConsoleLog (LogValue (JStr ''a'')), NewDate,
               ConsoleLog (LogText ''init time: 5''),
               StatsigFlush],
      world = 10\<rparr>"
proof -
  have a: "Date_valueOf sdk_succeeding (0::int) = (0, 5)"
    and b: "createClient sdk_succeeding (EDGE_CONFIG sample_env) = Inr sample_client"
    and c: "sample_adapter = \<lparr>configSpecsKey = EDGE_CONFIG_ITEM_KEY sample_env,
        edgeConfigClient = sample_client, supportConfigSpecPolling = False\<rparr>"
    and d: "StatsigNode_initialize sdk_succeeding (STATSIG_SERVER_API_KEY sample_env)
        sample_adapter (5::int) = (Inr (), 5)"
    and e: "StatsigNode_getConfig sdk_succeeding \<lparr>userID = ''1234''\<rparr> ''statsig_example'' (5::int)
        = (Inr sample_config, 5)"
    and f: "getValue sample_config ''bucket'' (JStr ''default'') = Inr (JStr ''a'')"
    and g: "Date_valueOf sdk_succeeding (5::int) = (5, 10)"
    and h: "StatsigNode_flush sdk_succeeding (10::int) = (Inr (), 10)"
    by (simp_all add: sdk_succeeding_def sample_env_def sample_client_def sample_adapter_def
        sample_config_def)
  have "getServerSideProps sample_context sample_env sdk_succeeding 0 =
         \<lparr>response = Inr \<lparr>props = []\<rparr>,
          trace = [NewDate, CreateClient (EDGE_CONFIG sample_env),
                   StatsigInitialize (STATSIG_SERVER_API_KEY sample_env) sample_adapter,
                   StatsigGetConfig \<lparr>userID = ''1234''\<rparr> ''statsig_example'',
                   GetValue ''bucket'' (JStr ''default''),
                   ConsoleLog (LogValue (JStr ''a'')), NewDate,
                   ConsoleLog (LogText (''init time: '' @ Number_toString (5 - 0))),
                   StatsigFlush],
          world = 10\<rparr>"
    by (rule mp [OF conjunct1 [OF getServerSideProps_sequence
            [of sdk_succeeding 0 0 5 sample_env sample_client sample_adapter 5 sample_config 5
              "JStr ''a''" 5 10 10 sample_context]]])
      (intro conjI a b c d e f g h)
  then show ?thesis
    by (simp add: sample_env_def init_time_text)
qed

text \<open>
  C7. The handler never looks at the request context: two requests, whatever their
  cookies, meet the outside world in the same way and end the same way. The evaluation
  is asked for the user \<^verbatim>\<open>1234\<close> and the experiment \<^verbatim>\<open>statsig_example\<close> and for nothing
  else: replacing the SDK's evaluation by any other that answers alike at that one user
  and experiment changes nothing, and once the calls before it have succeeded, what the
  evaluation answers there is what the request gets: its error ends the request, and the
  \<^verbatim>\<open>bucket\<close> of its config is the bucket logged. So the bucket evaluated does not depend
  on the cookie.
\<close>

theorem getServerSideProps_fixed_user:
  "getServerSideProps context1 env ext s = getServerSideProps context2 env ext s
   \<and> (\<forall>g. g \<lparr>userID = ''1234''\<rparr> ''statsig_example''
             = StatsigNode_getConfig ext \<lparr>userID = ''1234''\<rparr> ''statsig_example''
        \<longrightarrow> getServerSideProps context1 env (ext\<lparr>StatsigNode_getConfig := g\<rparr>) s
              = getServerSideProps context2 env ext s)
   \<and> (Date_valueOf ext s = (startT, s1)
       \<and> createClient ext (EDGE_CONFIG env) = Inr client
       \<and> StatsigNode_initialize ext (STATSIG_SERVER_API_KEY env)
            \<lparr>configSpecsKey = EDGE_CONFIG_ITEM_KEY env, edgeConfigClient = client,
             supportConfigSpecPolling = False\<rparr> s1 = (Inr (), s2)
       \<longrightarrow> (\<forall>e s3. StatsigNode_getConfig ext \<lparr>userID = ''1234''\<rparr> ''statsig_example'' s2
                      = (Inl e, s3)
                \<longrightarrow> response (getServerSideProps context1 env ext s) = Inl e)
           \<and> (\<forall>config s3 bucket.
                 StatsigNode_getConfig ext \<lparr>userID = ''1234''\<rparr> ''statsig_example'' s2
                   = (Inr config, s3)
                 \<and> getValue config ''bucket'' (JStr ''default'') = Inr bucket
                \<longrightarrow> ConsoleLog (LogValue bucket)
                      \<in> set (trace (getServerSideProps context1 env ext s))))
   \<and> (\<forall>user name. StatsigGetConfig user name \<in> set (trace (getServerSideProps context1 env ext s))
        \<longrightarrow> user = \<lparr>userID = ''1234''\<rparr> \<and> name = ''statsig_example'')"
proof (intro conjI)
  show "getServerSideProps context1 env ext s = getServerSideProps context2 env ext s"
    by (simp add: getServerSideProps_def)
  show "\<forall>g. g \<lparr>userID = ''1234''\<rparr> ''statsig_example''
             = StatsigNode_getConfig ext \<lparr>userID = ''1234''\<rparr> ''statsig_example''
        \<longrightarrow> getServerSideProps context1 env (ext\<lparr>StatsigNode_getConfig := g\<rparr>) s
              = getServerSideProps context2 env ext s"
    by (simp add: getServerSideProps_def Let_def cong: prod.case_cong sum.case_cong)
  show "Date_valueOf ext s = (startT, s1)
       \<and> createClient ext (EDGE_CONFIG env) = Inr client
       \<and> StatsigNode_initialize ext (STATSIG_SERVER_API_KEY env)
            \<lparr>configSpecsKey = EDGE_CONFIG_ITEM_KEY env, edgeConfigClient = client,
             supportConfigSpecPolling = False\<rparr> s1 = (Inr (), s2)
       \<longrightarrow> (\<forall>e s3. StatsigNode_getConfig ext \<lparr>userID = ''1234''\<rparr> ''statsig_example'' s2
                      = (Inl e, s3)
                \<longrightarrow> response (getServerSideProps context1 env ext s) = Inl e)
           \<and> (\<forall>config s3 bucket.
                 StatsigNode_getConfig ext \<lparr>userID = ''1234''\<rparr> ''statsig_example'' s2
                   = (Inr config, s3)
                 \<and> getValue config ''bucket'' (JStr ''default'') = Inr bucket
                \<longrightarrow> ConsoleLog (LogValue bucket)
                      \<in> set (trace (getServerSideProps context1 env ext s)))"
  proof (intro impI conjI allI; elim conjE)
    fix e s3
    assume "Date_valueOf ext s = (startT, s1)"
      "createClient ext (EDGE_CONFIG env) = Inr client"
      "StatsigNode_initialize ext (STATSIG_SERVER_API_KEY env)
            \<lparr>configSpecsKey = EDGE_CONFIG_ITEM_KEY env, edgeConfigClient = client,
             supportConfigSpecPolling = False\<rparr> s1 = (Inr (), s2)"
      "StatsigNode_getConfig ext \<lparr>userID = ''1234''\<rparr> ''statsig_example'' s2 = (Inl e, s3)"
    then show "response (getServerSideProps context1 env ext s) = Inl e"
      by (simp add: getServerSideProps_def new_EdgeConfigDataAdapter_def)
  next
    fix config s3 bucket
    assume "Date_valueOf ext s = (startT, s1)"
      "createClient ext (EDGE_CONFIG env) = Inr client"
      "StatsigNode_initialize ext (STATSIG_SERVER_API_KEY env)
            \<lparr>configSpecsKey = EDGE_CONFIG_ITEM_KEY env, edgeConfigClient = client,
             supportConfigSpecPolling = False\<rparr> s1 = (Inr (), s2)"
      "StatsigNode_getConfig ext \<lparr>userID = ''1234''\<rparr> ''statsig_example'' s2 = (Inr config, s3)"
      "getValue config ''bucket'' (JStr ''default'') = Inr bucket"
    then show "ConsoleLog (LogValue bucket) \<in> set (trace (getServerSideProps context1 env ext s))"
      by (simp add: getServerSideProps_def new_EdgeConfigDataAdapter_def Let_def
          split: prod.split sum.split)
  qed
  show "\<forall>user name. StatsigGetConfig user name \<in> set (trace (getServerSideProps context1 env ext s))
        \<longrightarrow> user = \<lparr>userID = ''1234''\<rparr> \<and> name = ''statsig_example''"
    unfolding getServerSideProps_def Let_def
    by (simp split: prod.split sum.split)
qed

text \<open>
  With an SDK whose bucket is the user identifier, requests with different cookies both
  log the bucket \<^verbatim>\<open>1234\<close>; an evaluation that knows no other user serves them as well,
  and one that rejects just that user fails them.
\<close>

theorem getServerSideProps_fixed_user_witness:
  "getServerSideProps sample_context sample_env sdk_by_user 0
     = getServerSideProps other_context sample_env sdk_by_user 0
   \<and> getServerSideProps sample_context sample_env
       (sdk_by_user\<lparr>StatsigNode_getConfig := getConfig_only_1234\<rparr>) 0
     = getServerSideProps other_context sample_env sdk_by_user 0
   \<and> ConsoleLog (LogValue (JStr ''1234''))
       \<in> set (trace (getServerSideProps sample_context sample_env sdk_by_user 0))
   \<and> response (getServerSideProps sample_context sample_env
       (sdk_by_user\<lparr>StatsigNode_getConfig := getConfig_except_1234\<rparr>) 0)
     = Inl (Error ''user 1234 is blocked'')
   \<and> StatsigGetConfig \<lparr>userID = ''1234''\<rparr> ''statsig_example''
       \<in> set (trace (getServerSideProps sample_context sample_env sdk_by_user 0))"
proof -
  note by_user = getServerSideProps_fixed_user
    [of sample_context sample_env sdk_by_user 0 other_context 0 5 sample_client 5]
  note blocked = getServerSideProps_fixed_user
    [of sample_context sample_env "sdk_by_user\<lparr>StatsigNode_getConfig := getConfig_except_1234\<rparr>"
      0 other_context 0 5 sample_client 5]
  have same: "getServerSideProps sample_context sample_env sdk_by_user 0
     = getServerSideProps other_context sample_env sdk_by_user 0"
    using by_user by (rule conjunct1)
  have alike: "getConfig_only_1234 \<lparr>userID = ''1234''\<rparr> ''statsig_example''
      = StatsigNode_getConfig sdk_by_user \<lparr>userID = ''1234''\<rparr> ''statsig_example''"
    by (rule ext) (simp add: getConfig_only_1234_def sdk_by_user_def sdk_succeeding_def)
  have only: "getServerSideProps sample_context sample_env
       (sdk_by_user\<lparr>StatsigNode_getConfig := getConfig_only_1234\<rparr>) 0
     = getServerSideProps other_context sample_env sdk_by_user 0"
    using by_user alike by blast
  have before: "Date_valueOf sdk_by_user (0::int) = (0, 5)"
    "createClient sdk_by_user (EDGE_CONFIG sample_env) = Inr sample_client"
    "StatsigNode_initialize sdk_by_user (STATSIG_SERVER_API_KEY sample_env)
       \<lparr>configSpecsKey = EDGE_CONFIG_ITEM_KEY sample_env, edgeConfigClient = sample_client,
        supportConfigSpecPolling = False\<rparr> (5::int) = (Inr (), 5)"
    by (simp_all add: sdk_by_user_def sdk_succeeding_def sample_env_def sample_client_def)
  have answer: "StatsigNode_getConfig sdk_by_user \<lparr>userID = ''1234''\<rparr> ''statsig_example'' (5::int)
      = (Inr (config_for \<lparr>userID = ''1234''\<rparr> ''statsig_example''), 5)"
    "getValue (config_for \<lparr>userID = ''1234''\<rparr> ''statsig_example'') ''bucket'' (JStr ''default'')
      = Inr (JStr ''1234'')"
    by (simp_all add: sdk_by_user_def sdk_succeeding_def config_for_def)
  have logged: "ConsoleLog (LogValue (JStr ''1234''))
       \<in> set (trace (getServerSideProps sample_context sample_env sdk_by_user 0))"
    using by_user before answer by blast
  have before': "Date_valueOf (sdk_by_user\<lparr>StatsigNode_getConfig := getConfig_except_1234\<rparr>)
        (0::int) = (0, 5)"
    "createClient (sdk_by_user\<lparr>StatsigNode_getConfig := getConfig_except_1234\<rparr>)
        (EDGE_CONFIG sample_env) = Inr sample_client"
    "StatsigNode_initialize (sdk_by_user\<lparr>StatsigNode_getConfig := getConfig_except_1234\<rparr>)
       (STATSIG_SERVER_API_KEY sample_env)
       \<lparr>configSpecsKey = EDGE_CONFIG_ITEM_KEY sample_env, edgeConfigClient = sample_client,
        supportConfigSpecPolling = False\<rparr> (5::int) = (Inr (), 5)"
    "StatsigNode_getConfig (sdk_by_user\<lparr>StatsigNode_getConfig := getConfig_except_1234\<rparr>)
       \<lparr>userID = ''1234''\<rparr> ''statsig_example'' (5::int)
      = (Inl (Error ''user 1234 is blocked''), 5)"
    by (simp_all add: sdk_by_user_def sdk_succeeding_def sample_env_def sample_client_def
        getConfig_except_1234_def)
  have failed: "response (getServerSideProps sample_context sample_env
       (sdk_by_user\<lparr>StatsigNode_getConfig := getConfig_except_1234\<rparr>) 0)
     = Inl (Error ''user 1234 is blocked'')"
    using blocked before' by blast
  have called: "StatsigGetConfig \<lparr>userID = ''1234''\<rparr> ''statsig_example''
       \<in> set (trace (getServerSideProps sample_context sample_env sdk_by_user 0))"
    by (simp add: getServerSideProps_def new_EdgeConfigDataAdapter_def sdk_by_user_def
        sdk_succeeding_def sample_env_def config_for_def)
  from same only logged failed called show ?thesis by (intro conjI)
qed

end
